theory Spec2Isabelle
  imports Main
begin

section \<open>The rush-pnpm command-line wrapper\<close>

text \<open>
  A shallow embedding of \<^verbatim>\<open>libraries/rush-lib/src/cli/RushPnpmCommandLineParser.ts\<close>.
  The class \<^verbatim>\<open>RushPnpmCommandLineParser\<close> becomes a record of its private fields; each
  method takes the record and returns the updated one. A \<^verbatim>\<open>throw\<close> is the left
  summand of a sum type. Calls into collaborators (the terminal, the subprocess
  service, the file system) are appended to a log in the order in which the code makes
  them; what the collaborators answer is a parameter.
\<close>

subsection \<open>Constants and data\<close>

definition RUSH_SKIP_CHECKS_PARAMETER :: string where
  "RUSH_SKIP_CHECKS_PARAMETER = ''--rush-skip-checks''"

text \<open>
  The texts written to the terminal. \<^verbatim>\<open>PrintUtilities.wrapWords\<close> and \<^verbatim>\<open>Colors.cyan\<close>
  only lay a text out, so a message is kept as which text it is and the token quoted
  in it.
\<close>

datatype message =
    MustBeUnderRushWorkspace
  | RequiresPnpm
  | RequiresUseWorkspaces
  | FailedToInvokeSpawnError string
  | FailedToInvokeNoExitCode
  | CannotReadPropertiesOfUndefined
  | OtherText string
  | WorkspaceFileNotGenerated
  | WorkspaceFilePath string
  | NeedRushInstall
  | BinaryNotInstalled
  | ErrorPrefixed message
  | ExpectsCommandVerbBefore string
  | BYPASS_NOTICE
  | SkipChecksMustBeFirst
  | KnownIncompatible string
  | IncompatibleUseRush string
  | MayInvalidateWorkspace string
  | ConsiderRushInstall
  | NotTested string
  | PatchFilesRefreshed

text \<open>
  The exceptions the file raises or lets through: \<^verbatim>\<open>AlreadyReportedError\<close>, an
  \<^verbatim>\<open>Error\<close> with its message, and the \<^verbatim>\<open>TypeError\<close> of the runtime when a
  property of \<^verbatim>\<open>undefined\<close> is read.
\<close>

datatype error = AlreadyReportedError | Error message | TypeError message

datatype terminal_line =
    writeErrorLine message
  | writeLine message
  | writeWarningLine message

text \<open>The fields of \<^verbatim>\<open>RushConfiguration\<close> that the file reads.\<close>

record IConfigurationEnvironmentVariable =
  envValue :: string
  override :: bool

record RushConfiguration =
  packageManager :: string
  useWorkspaces :: bool
  pnpmStorePath :: "string option"
  environmentVariables :: "(string \<times> IConfigurationEnvironmentVariable) list option"
  commonTempFolder :: string
  commonFolder :: string
  packageManagerToolFilename :: string
  tempShrinkwrapFilename :: string
  getCommittedShrinkwrapFilename :: string

text \<open>
  The private fields of the class. A field declared with \<^verbatim>\<open>!\<close> or
  \<^verbatim>\<open>| undefined\<close> is \<open>None\<close> until it is assigned.
\<close>

record parser =
  terminal :: "terminal_line list"
  rushConfiguration :: "RushConfiguration option"
  pnpmArgs :: "string list option"
  commandName :: "string option"

subsection \<open>The verb pattern\<close>

text \<open>
  The test \<^verbatim>\<open>/^[a-z]+([a-z0-9\-])*$/.test(firstArg)\<close>: the pattern is anchored at both
  ends and has no flag, so it accepts exactly the non-empty strings whose first
  character is a lower-case letter and whose other characters are lower-case letters,
  digits or hyphens.
\<close>

definition lower_case :: "char \<Rightarrow> bool" where
  "lower_case c = (c \<in> set ''abcdefghijklmnopqrstuvwxyz'')"

definition verb_char :: "char \<Rightarrow> bool" where
  "verb_char c = (c \<in> set ''abcdefghijklmnopqrstuvwxyz0123456789-'')"

fun verb_pattern :: "string \<Rightarrow> bool" where
  "verb_pattern [] = False"
| "verb_pattern (c # cs) = (lower_case c \<and> list_all verb_char cs)"

subsection \<open>\<^verbatim>\<open>_validatePnpmUsage\<close>\<close>

text \<open>
  The array \<^verbatim>\<open>pnpmArgs\<close> is changed in place, so the function returns it. The
  result is \<open>Inl\<close> when the method throws; the parser is returned in both cases, since
  the terminal is written to and \<^verbatim>\<open>_commandName\<close> is assigned before some of the throws.
\<close>

definition say :: "terminal_line list \<Rightarrow> parser \<Rightarrow> parser" where
  "say ls p = p\<lparr>terminal := terminal p @ ls\<rparr>"

definition blocked_verbs :: "string list" where
  "blocked_verbs = [''import'']"

definition install_verbs :: "string list" where
  "install_verbs = [''add'', ''install'', ''i'', ''install-test'', ''it'']"

definition warning_verbs :: "string list" where
  "warning_verbs = [''link'', ''ln'', ''remove'', ''rm'', ''unlink'', ''update'', ''up'']"

definition safe_verbs :: "string list" where
  "safe_verbs = [''audit'', ''exec'', ''list'', ''ls'', ''outdated'', ''pack'', ''patch'',
     ''patch-commit'', ''prune'', ''publish'', ''rebuild'', ''rb'', ''root'', ''run'',
     ''start'', ''store'', ''test'', ''t'', ''why'']"

text \<open>The \<^verbatim>\<open>switch (commandName)\<close> of lines 185 to 273.\<close>

definition switch_commandName :: "string \<Rightarrow> string list \<Rightarrow> parser \<Rightarrow> (error + string list) \<times> parser" where
  "switch_commandName c args p =
    (if c \<in> set blocked_verbs then
       (Inl AlreadyReportedError,
        say [writeErrorLine (KnownIncompatible c), writeLine BYPASS_NOTICE] p)
     else if c \<in> set install_verbs then
       (Inl AlreadyReportedError,
        say [writeErrorLine (IncompatibleUseRush c), writeLine BYPASS_NOTICE] p)
     else if c \<in> set warning_verbs then
       (Inr args,
        say [writeWarningLine (MayInvalidateWorkspace c), writeWarningLine ConsiderRushInstall] p)
     else if c \<in> set safe_verbs then
       (Inr args, p)
     else
       (Inl AlreadyReportedError,
        say [writeErrorLine (NotTested c), writeLine BYPASS_NOTICE] p))"

text \<open>
  \<^verbatim>\<open>pnpmArgs[1] === RUSH_SKIP_CHECKS_PARAMETER\<close>: an index past the end reads
  \<^verbatim>\<open>undefined\<close>, which is not equal to a string.
\<close>

fun second_is :: "string \<Rightarrow> string list \<Rightarrow> bool" where
  "second_is s (a # b # rest) = (b = s)"
| "second_is s _ = False"

text \<open>\<^verbatim>\<open>pnpmArgs.splice(1, 1)\<close> removes the element at index 1.\<close>

fun splice_1_1 :: "string list \<Rightarrow> string list" where
  "splice_1_1 (a # b # rest) = a # rest"
| "splice_1_1 xs = xs"

definition help_flag :: "string list \<Rightarrow> bool" where
  "help_flag args = (''-h'' \<in> set args \<or> ''--help'' \<in> set args \<or> ''-?'' \<in> set args)"

fun validatePnpmUsage :: "string list \<Rightarrow> parser \<Rightarrow> (error + string list) \<times> parser" where
  "validatePnpmUsage [] p = (Inr [], p)"
| "validatePnpmUsage (firstArg # rest) p =
    (if firstArg = RUSH_SKIP_CHECKS_PARAMETER then (Inr rest, p)
     else if help_flag (firstArg # rest) then (Inr (firstArg # rest), p)
     else if length (firstArg # rest) = 1 \<and> (firstArg = ''-v'' \<or> firstArg = ''--version'')
       then (Inr (firstArg # rest), p)
     else if \<not> verb_pattern firstArg then
       (Inl AlreadyReportedError,
        say [writeErrorLine (ExpectsCommandVerbBefore firstArg), writeLine BYPASS_NOTICE] p)
     else if second_is RUSH_SKIP_CHECKS_PARAMETER (firstArg # rest) then
       (Inr (splice_1_1 (firstArg # rest)), p)
     else if RUSH_SKIP_CHECKS_PARAMETER \<in> set (firstArg # rest) then
       (Inl AlreadyReportedError, say [writeErrorLine SkipChecksMustBeFirst] p)
     else
       switch_commandName firstArg (firstArg # rest) (p\<lparr>commandName := Some firstArg\<rparr>))"


subsection \<open>The collaborators\<close>

text \<open>
  \<^verbatim>\<open>SpawnSyncReturns\<close> of Node.js: the fields that the file reads.
\<close>

record SpawnSyncReturns =
  spawn_error :: "string option"
  status :: "int option"

text \<open>
  What the process and the collaborators answer during one invocation.
  \<^item> \<open>argv\<close> and \<open>env\<close> are \<^verbatim>\<open>process.argv\<close> and \<^verbatim>\<open>process.env\<close>.
  \<^item> \<open>loadFromDefaultLocation\<close> stands for \<^verbatim>\<open>RushConfiguration.tryFindRushJsonLocation\<close>
    followed by \<^verbatim>\<open>RushConfiguration.loadFromDefaultLocation\<close>: the configuration,
    \<open>None\<close> when no \<^verbatim>\<open>rush.json\<close> is found, or what the loading throws.
  \<^item> The file system is asked while the parser is constructed (\<open>FileSystem_exists\<close>)
    and again after the child process has run (\<open>FileSystem_exists_after\<close>), so there is
    one answer for each moment.
  \<^item> \<open>Executable_spawnSync\<close> answers with what the call returns, or with what it throws.
  \<^item> \<open>FileSystem_copyFiles\<close> and \<open>Utilities_syncFile\<close> answer \<open>Some e\<close> when the call
    throws \<open>e\<close>.
  \<^item> \<^verbatim>\<open>path.join\<close> of Node.js and the constant \<^verbatim>\<open>RushConstants.pnpmPatchesFolderName\<close>
    are not part of the file and are parameters as well.
  \<^verbatim>\<open>NodeJsCompatibility.warnAboutCompatibilityIssues\<close> only prints to the console and is
  left out, and so is the choice of the terminal provider.
\<close>

record host =
  argv :: "string list"
  env :: "string \<rightharpoonup> string"
  path_join :: "string list \<Rightarrow> string"
  pnpmPatchesFolderName :: string
  loadFromDefaultLocation :: "error + RushConfiguration option"
  FileSystem_exists :: "string \<Rightarrow> bool"
  Executable_spawnSync :: "string \<Rightarrow> string list option \<Rightarrow> (string \<rightharpoonup> string) \<Rightarrow> error + SpawnSyncReturns"
  FileSystem_exists_after :: "string \<Rightarrow> bool"
  FileSystem_copyFiles :: "string \<Rightarrow> string \<Rightarrow> error option"
  Utilities_syncFile :: "string \<Rightarrow> string \<Rightarrow> error option"

text \<open>The calls that \<^verbatim>\<open>execute\<close> makes, in the order in which it makes them.\<close>

datatype call =
    SpawnSync string "string list option" "string \<rightharpoonup> string"
  | Exists string
  | CopyFiles string string
  | SyncFile string string

subsection \<open>The constructor\<close>

definition fresh :: parser where
  "fresh = \<lparr>terminal = [], rushConfiguration = None, pnpmArgs = None, commandName = None\<rparr>"

text \<open>The body of the \<^verbatim>\<open>try\<close> block, up to the assignment of \<^verbatim>\<open>_pnpmArgs\<close>.\<close>

definition try_block :: "host \<Rightarrow> parser \<Rightarrow> (error + string list) \<times> parser" where
  "try_block h p =
    (case loadFromDefaultLocation h of
       Inl e \<Rightarrow> (Inl e, p)
     | Inr None \<Rightarrow> (Inl (Error MustBeUnderRushWorkspace), p)
     | Inr (Some cfg) \<Rightarrow>
        (let p1 = p\<lparr>rushConfiguration := Some cfg\<rparr> in
         if packageManager cfg \<noteq> ''pnpm'' then (Inl (Error RequiresPnpm), p1)
         else if \<not> useWorkspaces cfg then (Inl (Error RequiresUseWorkspaces), p1)
         else
           (let workspaceFolder = commonTempFolder cfg;
                workspaceFilePath = path_join h [workspaceFolder, ''pnpm-workspace.yaml'']
            in
            if \<not> FileSystem_exists h workspaceFilePath then
              (Inl AlreadyReportedError,
               say [writeErrorLine WorkspaceFileNotGenerated,
                    writeErrorLine (WorkspaceFilePath workspaceFilePath),
                    writeLine NeedRushInstall] p1)
            else if \<not> FileSystem_exists h (packageManagerToolFilename cfg) then
              (Inl AlreadyReportedError,
               say [writeErrorLine BinaryNotInstalled, writeLine NeedRushInstall] p1)
            else validatePnpmUsage (drop 2 (argv h)) p1)))"

text \<open>
  The \<^verbatim>\<open>catch\<close> clause reports every error but \<^verbatim>\<open>AlreadyReportedError\<close> and
  rethrows none, so the constructor always returns a parser.
\<close>

fun error_message :: "error \<Rightarrow> message" where
  "error_message (Error m) = m"
| "error_message (TypeError m) = m"
| "error_message AlreadyReportedError = OtherText []"

definition constructor :: "host \<Rightarrow> parser" where
  "constructor h =
    (case try_block h fresh of
       (Inr args, p) \<Rightarrow> p\<lparr>pnpmArgs := Some args\<rparr>
     | (Inl AlreadyReportedError, p) \<Rightarrow> p
     | (Inl e, p) \<Rightarrow> say [writeErrorLine (ErrorPrefixed (error_message e))] p)"

subsection \<open>\<^verbatim>\<open>_execute\<close>: the environment and the child process\<close>

text \<open>
  Modelled from the spec: the class \<^verbatim>\<open>EnvironmentMap\<close>, which belongs to another package
  and is missing here. The spec calls the environment a mapping, so it is a map from
  names to values, with the names compared as they are written; \<^verbatim>\<open>set\<close> is the update
  of the map and \<^verbatim>\<open>get\<close> its lookup.
\<close>

definition apply_variable ::
  "(string \<rightharpoonup> string) \<Rightarrow> string \<times> IConfigurationEnvironmentVariable \<Rightarrow> (string \<rightharpoonup> string)" where
  "apply_variable m e =
    (if override (snd e) then m(fst e \<mapsto> envValue (snd e))
     else if m (fst e) = None then m(fst e \<mapsto> envValue (snd e))
     else m)"

definition pnpmEnvironmentMap :: "RushConfiguration \<Rightarrow> (string \<rightharpoonup> string) \<Rightarrow> (string \<rightharpoonup> string)" where
  "pnpmEnvironmentMap cfg base =
    (let m1 = base(''NPM_CONFIG_WORKSPACE_DIR'' \<mapsto> commonTempFolder cfg);
         m2 = (case pnpmStorePath cfg of
                 None \<Rightarrow> m1
               | Some s \<Rightarrow> if s = [] then m1 else m1(''NPM_CONFIG_STORE_DIR'' \<mapsto> s))
     in case environmentVariables cfg of
          None \<Rightarrow> m2
        | Some evs \<Rightarrow> foldl apply_variable m2 evs)"

text \<open>
  \<^verbatim>\<open>_execute\<close> takes the value of \<^verbatim>\<open>process.exitCode\<close> and returns what it throws (if
  anything), the value of \<^verbatim>\<open>process.exitCode\<close> when it ends, and the calls made. Reading
  \<^verbatim>\<open>commonTempFolder\<close> of an unassigned \<^verbatim>\<open>_rushConfiguration\<close> throws.
\<close>

definition execute_body :: "host \<Rightarrow> parser \<Rightarrow> int \<Rightarrow> error option \<times> int \<times> call list" where
  "execute_body h p code =
    (case rushConfiguration p of
       None \<Rightarrow> (Some (TypeError CannotReadPropertiesOfUndefined), code, [])
     | Some cfg \<Rightarrow>
        (let m = pnpmEnvironmentMap cfg (env h);
             cs = [SpawnSync (packageManagerToolFilename cfg) (pnpmArgs p) m]
         in
         case Executable_spawnSync h (packageManagerToolFilename cfg) (pnpmArgs p) m of
           Inl e \<Rightarrow> (Some e, code, cs)
         | Inr result \<Rightarrow>
            (case spawn_error result of
               Some e \<Rightarrow> (Some (Error (FailedToInvokeSpawnError e)), code, cs)
             | None \<Rightarrow>
                (case status result of
                   None \<Rightarrow> (Some (Error FailedToInvokeNoExitCode), code, cs)
                 | Some s \<Rightarrow> (None, s, cs)))))"

subsection \<open>\<^verbatim>\<open>_postExecute\<close>\<close>

text \<open>
  Returns what it throws, if anything, the calls made and the lines written. A
  collaborator that throws ends the method at that call.
\<close>

definition patch_commit :: "host \<Rightarrow> RushConfiguration \<Rightarrow> error option \<times> call list \<times> terminal_line list" where
  "patch_commit h cfg =
    (let commonTempPnpmPatchesFolder = path_join h [commonTempFolder cfg, pnpmPatchesFolderName h];
         rushPnpmPatchesFolder = path_join h [commonFolder cfg, ''pnpm'', pnpmPatchesFolderName h];
         c1 = [Exists commonTempPnpmPatchesFolder];
         c2 = c1 @ [CopyFiles commonTempPnpmPatchesFolder rushPnpmPatchesFolder];
         c3 = c2 @ [SyncFile (tempShrinkwrapFilename cfg) (getCommittedShrinkwrapFilename cfg)]
     in
     if \<not> FileSystem_exists_after h commonTempPnpmPatchesFolder then (None, c1, [])
     else
       (case FileSystem_copyFiles h commonTempPnpmPatchesFolder rushPnpmPatchesFolder of
          Some e \<Rightarrow> (Some e, c2, [])
        | None \<Rightarrow>
          (case Utilities_syncFile h (tempShrinkwrapFilename cfg) (getCommittedShrinkwrapFilename cfg) of
             Some e \<Rightarrow> (Some e, c3, [])
           | None \<Rightarrow> (None, c3, [writeWarningLine PatchFilesRefreshed]))))"

definition postExecute :: "host \<Rightarrow> parser \<Rightarrow> error option \<times> call list \<times> terminal_line list" where
  "postExecute h p =
    (case commandName p of
       None \<Rightarrow> (None, [], [])
     | Some c \<Rightarrow>
        if c = [] then (None, [], [])
        else if c = ''patch-commit'' then
          (case rushConfiguration p of
             None \<Rightarrow> (Some (TypeError CannotReadPropertiesOfUndefined), [], [])
           | Some cfg \<Rightarrow> patch_commit h cfg)
        else (None, [], []))"

subsection \<open>\<^verbatim>\<open>execute\<close>\<close>

text \<open>
  What is left when \<^verbatim>\<open>execute\<close> is over: \<^verbatim>\<open>process.exitCode\<close>, the exception that
  leaves the method (if any), the calls made and the parser.
\<close>

record outcome =
  exitCode :: int
  thrown :: "error option"
  calls :: "call list"
  after :: parser

definition execute :: "host \<Rightarrow> parser \<Rightarrow> outcome" where
  "execute h p =
    (case execute_body h p 1 of
       (Some e, code, cs) \<Rightarrow> \<lparr>exitCode = code, thrown = Some e, calls = cs, after = p\<rparr>
     | (None, code, cs) \<Rightarrow>
        if code = 0 then
          (case postExecute h p of
             (t, cs', ls) \<Rightarrow> \<lparr>exitCode = code, thrown = t, calls = cs @ cs', after = say ls p\<rparr>)
        else \<lparr>exitCode = code, thrown = None, calls = cs, after = p\<rparr>)"

text \<open>
  One run of the command: the parser is constructed and \<^verbatim>\<open>execute\<close> is called on it.
  The caller that does so is not part of the file.
\<close>

definition run :: "host \<Rightarrow> outcome" where
  "run h = execute h (constructor h)"

subsection \<open>Reading a classification off \<^verbatim>\<open>_validatePnpmUsage\<close>\<close>

text \<open>
  The method has no return value. Its decision is what a caller can observe: it throws
  (Reject), or it returns after writing its warning (AllowWithWarning), or it returns
  without one (Allow). The resulting list is the array after the call, and the
  recognized verb is the field \<^verbatim>\<open>_commandName\<close> after the call.
\<close>

datatype PolicyDecision = Allow | AllowWithWarning | Reject

fun is_warning :: "terminal_line \<Rightarrow> bool" where
  "is_warning (writeWarningLine m) = True"
| "is_warning _ = False"

definition decision :: "string list \<Rightarrow> PolicyDecision" where
  "decision args =
    (case validatePnpmUsage args fresh of
       (Inl e, p) \<Rightarrow> Reject
     | (Inr args', p) \<Rightarrow> if list_ex is_warning (terminal p) then AllowWithWarning else Allow)"

definition resulting_list :: "string list \<Rightarrow> string list" where
  "resulting_list args =
    (case fst (validatePnpmUsage args fresh) of Inl e \<Rightarrow> args | Inr args' \<Rightarrow> args')"

definition recognized_verb :: "string list \<Rightarrow> string option" where
  "recognized_verb args = commandName (snd (validatePnpmUsage args fresh))"


subsection \<open>Auxiliary notions for the statements\<close>

text \<open>
  The entries that \<^verbatim>\<open>Object.entries\<close> runs over (none when the setting is absent). The
  keys of an object are pairwise different, which is the hypothesis \<open>distinct\<close> below.
\<close>

definition declared :: "RushConfiguration \<Rightarrow> (string \<times> IConfigurationEnvironmentVariable) list" where
  "declared cfg = (case environmentVariables cfg of None \<Rightarrow> [] | Some evs \<Rightarrow> evs)"

text \<open>The map of \<^verbatim>\<open>_execute\<close> when its loop starts (lines 281 to 286).\<close>

definition preset :: "RushConfiguration \<Rightarrow> (string \<rightharpoonup> string) \<Rightarrow> (string \<rightharpoonup> string)" where
  "preset cfg base =
    (let m1 = base(''NPM_CONFIG_WORKSPACE_DIR'' \<mapsto> commonTempFolder cfg)
     in case pnpmStorePath cfg of
          None \<Rightarrow> m1
        | Some s \<Rightarrow> if s = [] then m1 else m1(''NPM_CONFIG_STORE_DIR'' \<mapsto> s))"

fun is_spawn :: "call \<Rightarrow> bool" where
  "is_spawn (SpawnSync f a m) = True"
| "is_spawn _ = False"

subsection \<open>Example inputs\<close>

text \<open>
  A workspace that passes every check of the constructor, and a host in which every
  file exists, the child process ends with status 0 and no collaborator throws. The
  arguments after the program name and the wrapper name are the parameter.
\<close>

definition example_configuration :: RushConfiguration where
  "example_configuration =
    \<lparr>packageManager = ''pnpm'', useWorkspaces = True, pnpmStorePath = None,
     environmentVariables = None,
     commonTempFolder = ''/repo/common/temp'', commonFolder = ''/repo/common'',
     packageManagerToolFilename = ''/repo/common/temp/pnpm-local/node_modules/.bin/pnpm'',
     tempShrinkwrapFilename = ''/repo/common/temp/pnpm-lock.yaml'',
     getCommittedShrinkwrapFilename = ''/repo/common/config/rush/pnpm-lock.yaml''\<rparr>"

fun join_slash :: "string list \<Rightarrow> string" where
  "join_slash [] = []"
| "join_slash [a] = a"
| "join_slash (a # b # rest) = a @ ''/'' @ join_slash (b # rest)"

definition example_host :: "string list \<Rightarrow> host" where
  "example_host args =
    \<lparr>argv = ''node'' # ''rush-pnpm'' # args,
     env = Map.empty,
     path_join = join_slash,
     pnpmPatchesFolderName = ''patches'',
     loadFromDefaultLocation = Inr (Some example_configuration),
     FileSystem_exists = (\<lambda>f. True),
     Executable_spawnSync = (\<lambda>f a m. Inr \<lparr>spawn_error = None, status = Some 0\<rparr>),
     FileSystem_exists_after = (\<lambda>f. True),
     FileSystem_copyFiles = (\<lambda>a b. None),
     Utilities_syncFile = (\<lambda>a b. None)\<rparr>"

text \<open>A configuration that declares one variable.\<close>

definition declaring :: "string \<Rightarrow> string \<Rightarrow> bool \<Rightarrow> RushConfiguration" where
  "declaring k v f =
    example_configuration\<lparr>environmentVariables := Some [(k, \<lparr>envValue = v, override = f\<rparr>)]\<rparr>"

section \<open>Properties\<close>

subsection \<open>Evaluation on concrete inputs\<close>

lemmas classify_eval =
  decision_def resulting_list_def recognized_verb_def fresh_def say_def
  RUSH_SKIP_CHECKS_PARAMETER_def help_flag_def lower_case_def verb_char_def
  switch_commandName_def blocked_verbs_def install_verbs_def warning_verbs_def safe_verbs_def

lemmas run_eval =
  run_def constructor_def try_block_def execute_def execute_body_def postExecute_def
  patch_commit_def pnpmEnvironmentMap_def apply_variable_def example_host_def
  example_configuration_def declaring_def declared_def

subsection \<open>The verb tables and the pattern\<close>

lemma install_verb_pattern: "v \<in> set install_verbs \<Longrightarrow> verb_pattern v"
  by (auto simp: install_verbs_def lower_case_def verb_char_def)

lemma warning_verb_pattern: "v \<in> set warning_verbs \<Longrightarrow> verb_pattern v"
  by (auto simp: warning_verbs_def lower_case_def verb_char_def)

lemma safe_verb_pattern: "v \<in> set safe_verbs \<Longrightarrow> verb_pattern v"
  by (auto simp: safe_verbs_def lower_case_def verb_char_def)

lemma verb_pattern_not_flag:
  assumes "verb_pattern v"
  shows "v \<noteq> RUSH_SKIP_CHECKS_PARAMETER" and "\<not> help_flag [v]"
    and "v \<noteq> ''-v''" and "v \<noteq> ''--version''"
  using assms by (cases v; auto simp: lower_case_def RUSH_SKIP_CHECKS_PARAMETER_def help_flag_def)+

lemma help_flag_Cons: "help_flag (v # rest) = (help_flag [v] \<or> help_flag rest)"
  by (auto simp: help_flag_def)

lemma second_is_take: "second_is s (v # rest) = (take 1 rest = [s])"
  by (cases rest) auto

text \<open>The ways through \<^verbatim>\<open>_validatePnpmUsage\<close> for a list that starts with a verb.\<close>

lemma validate_verb:
  assumes "verb_pattern v"
  shows "validatePnpmUsage (v # rest) p =
    (if help_flag rest then (Inr (v # rest), p)
     else if take 1 rest = [RUSH_SKIP_CHECKS_PARAMETER] then (Inr (v # tl rest), p)
     else if RUSH_SKIP_CHECKS_PARAMETER \<in> set rest then
       (Inl AlreadyReportedError, say [writeErrorLine SkipChecksMustBeFirst] p)
     else switch_commandName v (v # rest) (p\<lparr>commandName := Some v\<rparr>))"
proof -
  note nf = verb_pattern_not_flag [OF assms]
  have hf: "help_flag (v # rest) = help_flag rest"
    using nf(2) by (simp add: help_flag_Cons [of v rest])
  have one: "\<not> (length (v # rest) = 1 \<and> (v = ''-v'' \<or> v = ''--version''))"
    using nf(3,4) by simp
  have sp: "take 1 rest = [RUSH_SKIP_CHECKS_PARAMETER] \<Longrightarrow> splice_1_1 (v # rest) = v # tl rest"
    by (cases rest) auto
  show ?thesis
    using assms nf(1) one sp
    by (simp only: validatePnpmUsage.simps hf second_is_take) (simp del: verb_pattern.simps)
qed

lemma switch_install:
  "v \<in> set install_verbs \<Longrightarrow> fst (switch_commandName v args p) = Inl AlreadyReportedError"
  by (auto simp: switch_commandName_def)

lemma switch_warning:
  assumes "v \<in> set warning_verbs"
  shows "switch_commandName v args p =
    (Inr args, say [writeWarningLine (MayInvalidateWorkspace v), writeWarningLine ConsiderRushInstall] p)"
proof -
  have "v \<notin> set blocked_verbs" "v \<notin> set install_verbs"
    using assms by (auto simp: warning_verbs_def blocked_verbs_def install_verbs_def)
  then show ?thesis using assms by (simp add: switch_commandName_def)
qed

lemma switch_safe:
  assumes "v \<in> set safe_verbs"
  shows "switch_commandName v args p = (Inr args, p)"
proof -
  have "v \<notin> set blocked_verbs" "v \<notin> set install_verbs" "v \<notin> set warning_verbs"
    using assms by (auto simp: safe_verbs_def warning_verbs_def blocked_verbs_def install_verbs_def)
  then show ?thesis using assms by (simp add: switch_commandName_def)
qed

lemma switch_commandName_kept: "commandName (snd (switch_commandName v args p)) = commandName p"
  by (simp add: switch_commandName_def say_def)

lemma decision_bypass_first:
  "decision (RUSH_SKIP_CHECKS_PARAMETER # args) = Allow \<and>
   resulting_list (RUSH_SKIP_CHECKS_PARAMETER # args) = args"
  by (simp add: decision_def resulting_list_def fresh_def)

lemma decision_Reject: "fst (validatePnpmUsage args fresh) = Inl e \<Longrightarrow> decision args = Reject"
  by (cases "validatePnpmUsage args fresh") (simp add: decision_def)

lemma no_skip_take: "RUSH_SKIP_CHECKS_PARAMETER \<notin> set rest \<Longrightarrow> take 1 rest \<noteq> [RUSH_SKIP_CHECKS_PARAMETER]"
  by (cases rest) auto

subsection \<open>Classification\<close>

text \<open>
  Claim C3. The three placements of the bypass sentinel: in front of \<open>add foo\<close> the
  list is allowed and becomes \<open>add foo\<close>; between \<open>add\<close> and \<open>foo\<close> the list is allowed
  and becomes \<open>add foo\<close>; after \<open>add foo\<close> the list is rejected.
\<close>

theorem bypass_placement_examples:
  "decision [''--rush-skip-checks'', ''add'', ''foo''] = Allow \<and>
   resulting_list [''--rush-skip-checks'', ''add'', ''foo''] = [''add'', ''foo''] \<and>
   decision [''add'', ''--rush-skip-checks'', ''foo''] = Allow \<and>
   resulting_list [''add'', ''--rush-skip-checks'', ''foo''] = [''add'', ''foo''] \<and>
   decision [''add'', ''foo'', ''--rush-skip-checks''] = Reject"
  by (simp add: classify_eval)

text \<open>
  Claim C7. A list that starts with an install-family verb and goes on without help
  flag and without bypass sentinel is rejected; with the bypass sentinel put in front,
  it is allowed and the list that remains is the original one.
\<close>

theorem install_family_rejected_unless_bypassed:
  assumes "v \<in> {''add'', ''install'', ''i'', ''install-test'', ''it''}"
    and "\<not> help_flag rest"
    and "RUSH_SKIP_CHECKS_PARAMETER \<notin> set rest"
  shows "decision (v # rest) = Reject \<and>
         decision (RUSH_SKIP_CHECKS_PARAMETER # v # rest) = Allow \<and>
         resulting_list (RUSH_SKIP_CHECKS_PARAMETER # v # rest) = v # rest"
proof -
  have v: "v \<in> set install_verbs" using assms(1) by (simp add: install_verbs_def)
  have "validatePnpmUsage (v # rest) fresh =
      switch_commandName v (v # rest) (fresh\<lparr>commandName := Some v\<rparr>)"
    using assms(2,3) no_skip_take [OF assms(3)]
    by (simp add: validate_verb [OF install_verb_pattern [OF v]] del: validatePnpmUsage.simps)
  then have "fst (validatePnpmUsage (v # rest) fresh) = Inl AlreadyReportedError"
    by (simp add: switch_install [OF v] del: validatePnpmUsage.simps)
  then have "decision (v # rest) = Reject"
    by (rule decision_Reject)
  then show ?thesis using decision_bypass_first [of "v # rest"] by simp
qed

theorem install_family_rejected_unless_bypassed_witness:
  "''install'' \<in> {''add'', ''install'', ''i'', ''install-test'', ''it''} \<and>
   \<not> help_flag [''left-pad''] \<and>
   RUSH_SKIP_CHECKS_PARAMETER \<notin> set [''left-pad''] \<and>
   decision [''install'', ''left-pad''] = Reject \<and>
   decision [''--rush-skip-checks'', ''install'', ''left-pad''] = Allow \<and>
   resulting_list [''--rush-skip-checks'', ''install'', ''left-pad''] = [''install'', ''left-pad'']"
  using install_family_rejected_unless_bypassed [of "''install''" "[''left-pad'']"]
  by (simp add: help_flag_def RUSH_SKIP_CHECKS_PARAMETER_def)

text \<open>
  Claim C8. A list that starts with a state-mutating verb and goes on without help flag
  and without bypass sentinel is allowed with a warning, and the list is left as it
  was, so the verb is still its first token.
\<close>

theorem state_mutating_allowed_with_warning:
  assumes "v \<in> {''link'', ''ln'', ''remove'', ''rm'', ''unlink'', ''update'', ''up''}"
    and "\<not> help_flag rest"
    and "RUSH_SKIP_CHECKS_PARAMETER \<notin> set rest"
  shows "decision (v # rest) = AllowWithWarning \<and>
         resulting_list (v # rest) = v # rest \<and>
         hd (resulting_list (v # rest)) = v"
proof -
  have v: "v \<in> set warning_verbs" using assms(1) by (simp add: warning_verbs_def)
  have "validatePnpmUsage (v # rest) fresh =
      switch_commandName v (v # rest) (fresh\<lparr>commandName := Some v\<rparr>)"
    using assms(2,3) no_skip_take [OF assms(3)]
    by (simp add: validate_verb [OF warning_verb_pattern [OF v]] del: validatePnpmUsage.simps)
  then show ?thesis
    by (simp add: decision_def resulting_list_def switch_warning [OF v] say_def fresh_def
        del: validatePnpmUsage.simps)
qed

theorem state_mutating_allowed_with_warning_witness:
  "''rm'' \<in> {''link'', ''ln'', ''remove'', ''rm'', ''unlink'', ''update'', ''up''} \<and>
   \<not> help_flag [''left-pad''] \<and>
   RUSH_SKIP_CHECKS_PARAMETER \<notin> set [''left-pad''] \<and>
   decision [''rm'', ''left-pad''] = AllowWithWarning \<and>
   resulting_list [''rm'', ''left-pad''] = [''rm'', ''left-pad''] \<and>
   hd (resulting_list [''rm'', ''left-pad'']) = ''rm''"
  using state_mutating_allowed_with_warning [of "''rm''" "[''left-pad'']"]
  by (simp add: help_flag_def RUSH_SKIP_CHECKS_PARAMETER_def)

text \<open>
  Claim C9, as amended. A list that starts with a known-safe verb is allowed when the
  rest holds a help flag, or starts with the bypass sentinel, or does not hold the
  bypass sentinel at all. Otherwise, that is when the bypass sentinel stands further
  back and there is no help flag, the list is rejected.
\<close>

theorem known_safe_allowed_unless_misplaced_bypass:
  assumes "v \<in> {''audit'', ''exec'', ''list'', ''ls'', ''outdated'', ''pack'', ''patch'',
     ''patch-commit'', ''prune'', ''publish'', ''rebuild'', ''rb'', ''root'', ''run'',
     ''start'', ''store'', ''test'', ''t'', ''why''}"
  shows "decision (v # rest) =
    (if help_flag rest \<or> take 1 rest = [RUSH_SKIP_CHECKS_PARAMETER]
        \<or> RUSH_SKIP_CHECKS_PARAMETER \<notin> set rest
     then Allow else Reject)"
proof -
  have v: "v \<in> set safe_verbs" using assms(1) by (simp add: safe_verbs_def)
  show ?thesis
    by (simp add: decision_def validate_verb [OF safe_verb_pattern [OF v]] switch_safe [OF v]
        say_def fresh_def del: validatePnpmUsage.simps)
qed

theorem known_safe_allowed_unless_misplaced_bypass_witness:
  "''audit'' \<in> {''audit'', ''exec'', ''list'', ''ls'', ''outdated'', ''pack'', ''patch'',
     ''patch-commit'', ''prune'', ''publish'', ''rebuild'', ''rb'', ''root'', ''run'',
     ''start'', ''store'', ''test'', ''t'', ''why''} \<and>
   decision [''audit'', ''--json''] = Allow \<and>
   decision [''audit'', ''--rush-skip-checks'', ''--json''] = Allow \<and>
   decision [''audit'', ''--json'', ''--rush-skip-checks'', ''--help''] = Allow \<and>
   decision [''audit'', ''--json'', ''--rush-skip-checks''] = Reject"
  using known_safe_allowed_unless_misplaced_bypass [of "''audit''" "[''--json'']"]
    known_safe_allowed_unless_misplaced_bypass [of "''audit''" "[''--rush-skip-checks'', ''--json'']"]
    known_safe_allowed_unless_misplaced_bypass [of "''audit''" "[''--json'', ''--rush-skip-checks'', ''--help'']"]
    known_safe_allowed_unless_misplaced_bypass [of "''audit''" "[''--json'', ''--rush-skip-checks'']"]
  by (simp add: help_flag_def RUSH_SKIP_CHECKS_PARAMETER_def)

text \<open>
  Claim C9 as it is written fails: \<open>audit\<close> is a known-safe verb, and a list that
  starts with it is rejected when the bypass sentinel comes third.
\<close>

theorem known_safe_rejected_with_misplaced_bypass:
  "''audit'' \<in> set safe_verbs \<and>
   decision [''audit'', ''foo'', ''--rush-skip-checks''] = Reject \<and>
   decision [''audit'', ''foo'', ''--rush-skip-checks''] \<noteq> Allow"
  by (simp add: classify_eval)

text \<open>
  What is recorded in \<^verbatim>\<open>_commandName\<close> for a list that starts with a verb and is not
  rejected: nothing when the method returns at its check for help flags or at its check
  for the bypass sentinel after the verb, the verb otherwise.
\<close>

lemma recognized_verb_cases:
  assumes "verb_pattern v" and "decision (v # rest) \<noteq> Reject"
  shows "recognized_verb (v # rest) =
    (if help_flag rest \<or> take 1 rest = [RUSH_SKIP_CHECKS_PARAMETER] then None else Some v)"
proof -
  have "RUSH_SKIP_CHECKS_PARAMETER \<notin> set rest"
    if "\<not> help_flag rest" "take 1 rest \<noteq> [RUSH_SKIP_CHECKS_PARAMETER]"
    using assms(2) that
    by (auto simp: decision_def validate_verb [OF assms(1)] simp del: validatePnpmUsage.simps)
  then show ?thesis
    by (auto simp: recognized_verb_def validate_verb [OF assms(1)] switch_commandName_kept fresh_def
        simp del: validatePnpmUsage.simps)
qed

text \<open>
  Claim C2, as amended. When the first token matches the verb pattern, the rest of the
  list holds no help flag and does not start with the bypass sentinel, and the list is
  not rejected, the first token is recorded as the recognized verb.
\<close>

theorem verb_retained_without_help_and_bypass:
  assumes "verb_pattern v"
    and "\<not> help_flag rest"
    and "take 1 rest \<noteq> [RUSH_SKIP_CHECKS_PARAMETER]"
    and "decision (v # rest) \<noteq> Reject"
  shows "recognized_verb (v # rest) = Some v"
  using recognized_verb_cases [OF assms(1,4)] assms(2,3) by simp

theorem verb_retained_without_help_and_bypass_witness:
  "verb_pattern ''patch-commit'' \<and>
   \<not> help_flag [''/tmp/edit''] \<and>
   take 1 [''/tmp/edit''] \<noteq> [RUSH_SKIP_CHECKS_PARAMETER] \<and>
   decision [''patch-commit'', ''/tmp/edit''] \<noteq> Reject \<and>
   recognized_verb [''patch-commit'', ''/tmp/edit''] = Some ''patch-commit''"
  using verb_retained_without_help_and_bypass [of "''patch-commit''" "[''/tmp/edit'']"]
  by (simp add: classify_eval)

text \<open>
  Claim C2 as it is written fails on its own example: for \<open>patch-commit\<close> followed by
  the bypass sentinel the first token matches the pattern and the list is allowed, but
  no verb is recorded. The same happens for \<open>patch-commit\<close> followed by a help flag.
\<close>

theorem verb_not_retained_after_bypass:
  "verb_pattern ''patch-commit'' \<and>
   decision [''patch-commit'', ''--rush-skip-checks''] = Allow \<and>
   recognized_verb [''patch-commit'', ''--rush-skip-checks''] = None \<and>
   recognized_verb [''patch-commit'', ''--rush-skip-checks''] \<noteq> Some ''patch-commit'' \<and>
   decision [''patch-commit'', ''--help''] = Allow \<and>
   recognized_verb [''patch-commit'', ''--help''] = None"
  by (simp add: classify_eval)

subsection \<open>The environment of the child process\<close>

lemma pnpmEnvironmentMap_foldl:
  "pnpmEnvironmentMap cfg base = foldl apply_variable (preset cfg base) (declared cfg)"
  by (simp add: pnpmEnvironmentMap_def preset_def declared_def Let_def split: option.splits)

lemma foldl_apply_variable_other:
  "k \<notin> fst ` set evs \<Longrightarrow> foldl apply_variable m evs k = m k"
  by (induction evs arbitrary: m) (auto simp: apply_variable_def)

text \<open>One entry for a key decides the key, whatever stands before and after it.\<close>

lemma foldl_apply_variable:
  assumes "distinct (map fst evs)" and "(k, ev) \<in> set evs"
  shows "foldl apply_variable m evs k =
    (if override ev then Some (envValue ev)
     else case m k of None \<Rightarrow> Some (envValue ev) | Some b \<Rightarrow> Some b)"
  using assms
proof (induction evs arbitrary: m)
  case Nil
  then show ?case by simp
next
  case (Cons e evs)
  show ?case
  proof (cases "e = (k, ev)")
    case True
    then have "k \<notin> fst ` set evs" using Cons.prems(1) by auto
    then have "foldl apply_variable m (e # evs) k = apply_variable m e k"
      by (simp add: foldl_apply_variable_other)
    moreover have "apply_variable m (k, ev) k =
        (if override ev then Some (envValue ev)
         else case m k of None \<Rightarrow> Some (envValue ev) | Some b \<Rightarrow> Some b)"
      by (simp add: apply_variable_def split: option.splits)
    ultimately show ?thesis using True by simp
  next
    case False
    then have in_tl: "(k, ev) \<in> set evs" using Cons.prems(2) by simp
    then have "k \<in> fst ` set evs" by force
    then have "fst e \<noteq> k" using Cons.prems(1) by auto
    then have "apply_variable m e k = m k" by (simp add: apply_variable_def)
    moreover have "distinct (map fst evs)" using Cons.prems(1) by simp
    ultimately show ?thesis using Cons.IH [OF _ in_tl, of "apply_variable m e"] by simp
  qed
qed

lemma preset_workspace: "preset cfg base ''NPM_CONFIG_WORKSPACE_DIR'' = Some (commonTempFolder cfg)"
  by (simp add: preset_def Let_def split: option.splits)

lemma preset_store:
  assumes "pnpmStorePath cfg = Some s" and "s \<noteq> []"
  shows "preset cfg base ''NPM_CONFIG_STORE_DIR'' = Some s"
  using assms by (simp add: preset_def Let_def)

lemma preset_other:
  assumes "k \<noteq> ''NPM_CONFIG_WORKSPACE_DIR''"
    and "k \<noteq> ''NPM_CONFIG_STORE_DIR'' \<or> pnpmStorePath cfg = None \<or> pnpmStorePath cfg = Some []"
  shows "preset cfg base k = base k"
  using assms by (auto simp: preset_def Let_def split: option.splits)

text \<open>
  Claim C4, as amended. For a declared entry (the declared keys being pairwise
  different): with the override flag the child's environment has the entry's value.
  Without the flag, and for a key that is neither \<open>NPM_CONFIG_WORKSPACE_DIR\<close> nor
  (when a store path is configured) \<open>NPM_CONFIG_STORE_DIR\<close>, it has the value of the
  base environment when the base defines the key and the entry's value otherwise.
  Without the flag and for one of those two keys, it has the value that \<^verbatim>\<open>_execute\<close>
  has set before: the workspace folder, respectively the store path.
\<close>

theorem override_entry_effect:
  assumes "distinct (map fst (declared cfg))" and "(k, ev) \<in> set (declared cfg)"
  shows "(override ev \<longrightarrow> pnpmEnvironmentMap cfg base k = Some (envValue ev)) \<and>
    (\<not> override ev \<and> k \<noteq> ''NPM_CONFIG_WORKSPACE_DIR'' \<and>
       (k \<noteq> ''NPM_CONFIG_STORE_DIR'' \<or> pnpmStorePath cfg = None \<or> pnpmStorePath cfg = Some [])
     \<longrightarrow> pnpmEnvironmentMap cfg base k =
          (case base k of Some b \<Rightarrow> Some b | None \<Rightarrow> Some (envValue ev))) \<and>
    (\<not> override ev \<and> k = ''NPM_CONFIG_WORKSPACE_DIR''
     \<longrightarrow> pnpmEnvironmentMap cfg base k = Some (commonTempFolder cfg)) \<and>
    (\<not> override ev \<and> k = ''NPM_CONFIG_STORE_DIR'' \<and> pnpmStorePath cfg = Some s \<and> s \<noteq> []
     \<longrightarrow> pnpmEnvironmentMap cfg base k = Some s)"
proof -
  have E: "pnpmEnvironmentMap cfg base k =
      (if override ev then Some (envValue ev)
       else case preset cfg base k of None \<Rightarrow> Some (envValue ev) | Some b \<Rightarrow> Some b)"
    by (simp only: pnpmEnvironmentMap_foldl foldl_apply_variable [OF assms])
  show ?thesis
    using E preset_other [of k cfg base] preset_workspace [of cfg base] preset_store [of cfg s base]
    by (auto split: option.splits)
qed

theorem override_entry_effect_witness:
  "distinct (map fst (declared (declaring ''KEY'' ''override'' True))) \<and>
   (''KEY'', \<lparr>envValue = ''override'', override = True\<rparr>) \<in> set (declared (declaring ''KEY'' ''override'' True)) \<and>
   pnpmEnvironmentMap (declaring ''KEY'' ''override'' True) [''KEY'' \<mapsto> ''base''] ''KEY'' = Some ''override'' \<and>
   distinct (map fst (declared (declaring ''KEY'' ''override'' False))) \<and>
   (''KEY'', \<lparr>envValue = ''override'', override = False\<rparr>) \<in> set (declared (declaring ''KEY'' ''override'' False)) \<and>
   pnpmEnvironmentMap (declaring ''KEY'' ''override'' False) [''KEY'' \<mapsto> ''base''] ''KEY'' = Some ''base'' \<and>
   pnpmEnvironmentMap (declaring ''KEY'' ''override'' False) Map.empty ''KEY'' = Some ''override'' \<and>
   pnpmEnvironmentMap (declaring ''NPM_CONFIG_WORKSPACE_DIR'' ''override'' False) Map.empty
     ''NPM_CONFIG_WORKSPACE_DIR'' = Some ''/repo/common/temp'' \<and>
   pnpmEnvironmentMap
     ((declaring ''NPM_CONFIG_STORE_DIR'' ''override'' False)\<lparr>pnpmStorePath := Some ''/store''\<rparr>)
     Map.empty ''NPM_CONFIG_STORE_DIR'' = Some ''/store''"
  using
    override_entry_effect [of "declaring ''KEY'' ''override'' True" "''KEY''"
      "\<lparr>envValue = ''override'', override = True\<rparr>" "[''KEY'' \<mapsto> ''base'']"]
    override_entry_effect [of "declaring ''KEY'' ''override'' False" "''KEY''"
      "\<lparr>envValue = ''override'', override = False\<rparr>" "[''KEY'' \<mapsto> ''base'']"]
    override_entry_effect [of "declaring ''KEY'' ''override'' False" "''KEY''"
      "\<lparr>envValue = ''override'', override = False\<rparr>" "Map.empty"]
    override_entry_effect [of "declaring ''NPM_CONFIG_WORKSPACE_DIR'' ''override'' False"
      "''NPM_CONFIG_WORKSPACE_DIR''" "\<lparr>envValue = ''override'', override = False\<rparr>" "Map.empty"]
    override_entry_effect [of
      "(declaring ''NPM_CONFIG_STORE_DIR'' ''override'' False)\<lparr>pnpmStorePath := Some ''/store''\<rparr>"
      "''NPM_CONFIG_STORE_DIR''" "\<lparr>envValue = ''override'', override = False\<rparr>" "Map.empty" "''/store''"]
  by (simp add: declared_def declaring_def example_configuration_def)

text \<open>
  Claim C4 as it is written fails for the key \<open>NPM_CONFIG_WORKSPACE_DIR\<close>. An entry
  without the override flag does not win when the base environment lacks the key, and
  the base value is not preserved when the base environment defines the key: in both
  cases the child's environment has the workspace folder.
\<close>

theorem workspace_dir_entry_neither_wins_nor_preserves:
  "(Map.empty :: string \<rightharpoonup> string) ''NPM_CONFIG_WORKSPACE_DIR'' = None \<and>
   pnpmEnvironmentMap (declaring ''NPM_CONFIG_WORKSPACE_DIR'' ''override'' False) Map.empty
     ''NPM_CONFIG_WORKSPACE_DIR'' = Some ''/repo/common/temp'' \<and>
   pnpmEnvironmentMap (declaring ''NPM_CONFIG_WORKSPACE_DIR'' ''override'' False) Map.empty
     ''NPM_CONFIG_WORKSPACE_DIR'' \<noteq> Some ''override'' \<and>
   [''NPM_CONFIG_WORKSPACE_DIR'' \<mapsto> ''base''] ''NPM_CONFIG_WORKSPACE_DIR'' = Some ''base'' \<and>
   pnpmEnvironmentMap (declaring ''NPM_CONFIG_WORKSPACE_DIR'' ''override'' False)
     [''NPM_CONFIG_WORKSPACE_DIR'' \<mapsto> ''base''] ''NPM_CONFIG_WORKSPACE_DIR'' = Some ''/repo/common/temp'' \<and>
   pnpmEnvironmentMap (declaring ''NPM_CONFIG_WORKSPACE_DIR'' ''override'' False)
     [''NPM_CONFIG_WORKSPACE_DIR'' \<mapsto> ''base''] ''NPM_CONFIG_WORKSPACE_DIR'' \<noteq> Some ''base''"
  by (simp add: pnpmEnvironmentMap_def apply_variable_def declaring_def example_configuration_def)

text \<open>
  Claim C10. \<open>NPM_CONFIG_WORKSPACE_DIR\<close> is set to the workspace folder before the
  declared entries are applied. So, whatever the base environment is: with no entry for
  that key, or with an entry without the override flag, the child's environment has the
  workspace folder; with an entry with the override flag, it has the entry's value.
\<close>

theorem workspace_dir_set_before_entries:
  assumes "distinct (map fst (declared cfg))"
  shows "(''NPM_CONFIG_WORKSPACE_DIR'' \<notin> fst ` set (declared cfg) \<longrightarrow>
           pnpmEnvironmentMap cfg base ''NPM_CONFIG_WORKSPACE_DIR'' = Some (commonTempFolder cfg)) \<and>
         ((''NPM_CONFIG_WORKSPACE_DIR'', ev) \<in> set (declared cfg) \<and> \<not> override ev \<longrightarrow>
           pnpmEnvironmentMap cfg base ''NPM_CONFIG_WORKSPACE_DIR'' = Some (commonTempFolder cfg)) \<and>
         ((''NPM_CONFIG_WORKSPACE_DIR'', ev) \<in> set (declared cfg) \<and> override ev \<longrightarrow>
           pnpmEnvironmentMap cfg base ''NPM_CONFIG_WORKSPACE_DIR'' = Some (envValue ev))"
proof -
  have "pnpmEnvironmentMap cfg base ''NPM_CONFIG_WORKSPACE_DIR'' = Some (commonTempFolder cfg)"
    if "''NPM_CONFIG_WORKSPACE_DIR'' \<notin> fst ` set (declared cfg)"
    using that by (simp add: pnpmEnvironmentMap_foldl foldl_apply_variable_other preset_workspace)
  moreover have "pnpmEnvironmentMap cfg base ''NPM_CONFIG_WORKSPACE_DIR'' =
      (if override ev then Some (envValue ev) else Some (commonTempFolder cfg))"
    if "(''NPM_CONFIG_WORKSPACE_DIR'', ev) \<in> set (declared cfg)"
    by (simp add: pnpmEnvironmentMap_foldl foldl_apply_variable [OF assms that] preset_workspace)
  ultimately show ?thesis by simp
qed

theorem workspace_dir_set_before_entries_witness:
  "distinct (map fst (declared example_configuration)) \<and>
   ''NPM_CONFIG_WORKSPACE_DIR'' \<notin> fst ` set (declared example_configuration) \<and>
   pnpmEnvironmentMap example_configuration Map.empty ''NPM_CONFIG_WORKSPACE_DIR''
     = Some ''/repo/common/temp'' \<and>
   distinct (map fst (declared (declaring ''NPM_CONFIG_WORKSPACE_DIR'' ''elsewhere'' False))) \<and>
   (''NPM_CONFIG_WORKSPACE_DIR'', \<lparr>envValue = ''elsewhere'', override = False\<rparr>)
     \<in> set (declared (declaring ''NPM_CONFIG_WORKSPACE_DIR'' ''elsewhere'' False)) \<and>
   pnpmEnvironmentMap (declaring ''NPM_CONFIG_WORKSPACE_DIR'' ''elsewhere'' False) Map.empty
     ''NPM_CONFIG_WORKSPACE_DIR'' = Some ''/repo/common/temp'' \<and>
   distinct (map fst (declared (declaring ''NPM_CONFIG_WORKSPACE_DIR'' ''elsewhere'' True))) \<and>
   (''NPM_CONFIG_WORKSPACE_DIR'', \<lparr>envValue = ''elsewhere'', override = True\<rparr>)
     \<in> set (declared (declaring ''NPM_CONFIG_WORKSPACE_DIR'' ''elsewhere'' True)) \<and>
   pnpmEnvironmentMap (declaring ''NPM_CONFIG_WORKSPACE_DIR'' ''elsewhere'' True) Map.empty
     ''NPM_CONFIG_WORKSPACE_DIR'' = Some ''elsewhere''"
  using
    workspace_dir_set_before_entries [of example_configuration Map.empty]
    workspace_dir_set_before_entries [of "declaring ''NPM_CONFIG_WORKSPACE_DIR'' ''elsewhere'' False"
      Map.empty "\<lparr>envValue = ''elsewhere'', override = False\<rparr>"]
    workspace_dir_set_before_entries [of "declaring ''NPM_CONFIG_WORKSPACE_DIR'' ''elsewhere'' True"
      Map.empty "\<lparr>envValue = ''elsewhere'', override = True\<rparr>"]
  by (simp add: declared_def declaring_def example_configuration_def)

subsection \<open>\<^verbatim>\<open>execute\<close>\<close>

text \<open>
  Claim C5. After \<^verbatim>\<open>execute\<close> the exit code is the status of the child process when the
  subprocess service was called, returned, reported no error and reported a status;
  in every other case (no configuration, the service throws, it reports an error, it
  reports no status) the exit code is 1, the value that \<^verbatim>\<open>execute\<close> starts with.
\<close>

theorem exit_code_of_execute:
  "exitCode (execute h p) =
    (case rushConfiguration p of
       None \<Rightarrow> 1
     | Some cfg \<Rightarrow>
        (case Executable_spawnSync h (packageManagerToolFilename cfg) (pnpmArgs p)
                (pnpmEnvironmentMap cfg (env h)) of
           Inl e \<Rightarrow> 1
         | Inr result \<Rightarrow>
            (case (spawn_error result, status result) of
               (None, Some s) \<Rightarrow> s
             | _ \<Rightarrow> 1)))"
  by (simp add: execute_def execute_body_def Let_def split: option.splits sum.splits prod.splits)

theorem exit_code_of_execute_witness:
  "exitCode (execute
      ((example_host [''ls''])\<lparr>Executable_spawnSync :=
          (\<lambda>f a m. Inr \<lparr>spawn_error = None, status = Some 3\<rparr>)\<rparr>)
      (constructor (example_host [''ls'']))) = 3 \<and>
   exitCode (execute
      ((example_host [''ls''])\<lparr>Executable_spawnSync :=
          (\<lambda>f a m. Inr \<lparr>spawn_error = Some ''ENOENT'', status = Some 0\<rparr>)\<rparr>)
      (constructor (example_host [''ls'']))) = 1 \<and>
   exitCode (execute
      ((example_host [''ls''])\<lparr>Executable_spawnSync :=
          (\<lambda>f a m. Inr \<lparr>spawn_error = None, status = None\<rparr>)\<rparr>)
      (constructor (example_host [''ls'']))) = 1"
  using
    exit_code_of_execute [of
      "(example_host [''ls''])\<lparr>Executable_spawnSync :=
          (\<lambda>f a m. Inr \<lparr>spawn_error = None, status = Some 3\<rparr>)\<rparr>"
      "constructor (example_host [''ls''])"]
    exit_code_of_execute [of
      "(example_host [''ls''])\<lparr>Executable_spawnSync :=
          (\<lambda>f a m. Inr \<lparr>spawn_error = Some ''ENOENT'', status = Some 0\<rparr>)\<rparr>"
      "constructor (example_host [''ls''])"]
    exit_code_of_execute [of
      "(example_host [''ls''])\<lparr>Executable_spawnSync :=
          (\<lambda>f a m. Inr \<lparr>spawn_error = None, status = None\<rparr>)\<rparr>"
      "constructor (example_host [''ls''])"]
  by (simp add: constructor_def try_block_def example_host_def example_configuration_def
      classify_eval)

lemma exitCode_0:
  assumes "exitCode (execute h p) = 0"
  shows "\<exists>cfg. rushConfiguration p = Some cfg \<and>
     execute_body h p 1 = (None, 0, [SpawnSync (packageManagerToolFilename cfg) (pnpmArgs p)
        (pnpmEnvironmentMap cfg (env h))])"
  using assms
  by (auto simp: execute_def execute_body_def Let_def
      split: option.splits sum.splits prod.splits if_splits)

lemma exitCode_not_0:
  assumes "exitCode (execute h p) \<noteq> 0"
  shows "filter (\<lambda>c. \<not> is_spawn c) (calls (execute h p)) = []"
  using assms
  by (auto simp: execute_def execute_body_def Let_def
      split: option.splits sum.splits prod.splits if_splits)

text \<open>
  Claim C6. The calls of \<^verbatim>\<open>execute\<close> other than the one to the subprocess service:
  there is none unless the exit code is 0 and the recognized verb is \<open>patch-commit\<close>.
  In that case the temporary patches folder is looked up; if it does not exist nothing
  else happens; if it exists the folder is copied and then the lockfile is synchronized,
  in this order (the synchronization is not reached when the copy throws).
\<close>

theorem post_execute_sync:
  "let out = execute h p; fs = filter (\<lambda>c. \<not> is_spawn c) (calls out) in
   if exitCode out = 0 \<and> commandName p = Some ''patch-commit'' then
     (\<exists>cfg. rushConfiguration p = Some cfg \<and>
       (let tmp = path_join h [commonTempFolder cfg, pnpmPatchesFolderName h];
            dst = path_join h [commonFolder cfg, ''pnpm'', pnpmPatchesFolderName h]
        in if \<not> FileSystem_exists_after h tmp then fs = [Exists tmp]
           else if FileSystem_copyFiles h tmp dst \<noteq> None then fs = [Exists tmp, CopyFiles tmp dst]
           else fs = [Exists tmp, CopyFiles tmp dst,
                      SyncFile (tempShrinkwrapFilename cfg) (getCommittedShrinkwrapFilename cfg)]))
   else fs = []"
proof (cases "exitCode (execute h p) = 0")
  case False
  then show ?thesis using exitCode_not_0 [OF False] by (simp add: Let_def)
next
  case True
  from exitCode_0 [OF True] obtain cfg where cfg: "rushConfiguration p = Some cfg"
    and body: "execute_body h p 1 = (None, 0, [SpawnSync (packageManagerToolFilename cfg) (pnpmArgs p)
        (pnpmEnvironmentMap cfg (env h))])" by blast
  show ?thesis
    using True cfg
    by (auto simp: Let_def execute_def body postExecute_def patch_commit_def
        split: option.splits prod.splits)
qed

theorem post_execute_sync_witness:
  "exitCode (run (example_host [''patch-commit'', ''/tmp/edit''])) = 0 \<and>
   commandName (constructor (example_host [''patch-commit'', ''/tmp/edit''])) = Some ''patch-commit'' \<and>
   filter (\<lambda>c. \<not> is_spawn c) (calls (run (example_host [''patch-commit'', ''/tmp/edit'']))) =
     [Exists ''/repo/common/temp/patches'',
      CopyFiles ''/repo/common/temp/patches'' ''/repo/common/pnpm/patches'',
      SyncFile ''/repo/common/temp/pnpm-lock.yaml'' ''/repo/common/config/rush/pnpm-lock.yaml''] \<and>
   exitCode (run (example_host [''patch'', ''left-pad''])) = 0 \<and>
   filter (\<lambda>c. \<not> is_spawn c) (calls (run (example_host [''patch'', ''left-pad'']))) = []"
  using
    post_execute_sync [of "example_host [''patch-commit'', ''/tmp/edit'']"
      "constructor (example_host [''patch-commit'', ''/tmp/edit''])"]
    post_execute_sync [of "example_host [''patch'', ''left-pad'']"
      "constructor (example_host [''patch'', ''left-pad''])"]
  by (simp add: run_eval classify_eval Let_def)

subsection \<open>A rejected command still reaches the subprocess service\<close>

lemma validatePnpmUsage_rushConfiguration:
  "rushConfiguration (snd (validatePnpmUsage args p)) = rushConfiguration p"
  by (cases args) (simp_all add: switch_commandName_def say_def)

lemma constructor_rushConfiguration:
  assumes "loadFromDefaultLocation h = Inr (Some cfg)"
  shows "rushConfiguration (constructor h) = Some cfg"
proof -
  have "rushConfiguration (snd (try_block h fresh)) = Some cfg"
    using assms by (simp add: try_block_def Let_def say_def validatePnpmUsage_rushConfiguration
        del: validatePnpmUsage.simps)
  then show ?thesis
    by (cases "try_block h fresh")
       (auto simp: constructor_def say_def split: sum.splits error.splits)
qed

text \<open>
  The constructor assigns \<^verbatim>\<open>_rushConfiguration\<close> before it validates the arguments and
  swallows what the validation throws, and \<^verbatim>\<open>execute\<close> does not look at
  \<^verbatim>\<open>_pnpmArgs\<close>: whenever a configuration was loaded, the subprocess service is called.
\<close>

lemma run_spawns_whenever_configured:
  assumes "loadFromDefaultLocation h = Inr (Some cfg)"
  shows "\<exists>a m. hd (calls (run h)) = SpawnSync (packageManagerToolFilename cfg) a m \<and> calls (run h) \<noteq> []"
  using constructor_rushConfiguration [OF assms]
  by (auto simp: run_def execute_def execute_body_def Let_def
      split: option.splits sum.splits prod.splits)

text \<open>
  Claim C1, on the input that breaks it. In a workspace that passes every check of the
  constructor, the arguments \<open>install\<close> are rejected and \<^verbatim>\<open>_pnpmArgs\<close> stays unassigned,
  yet \<^verbatim>\<open>execute\<close> calls the subprocess service (with \<^verbatim>\<open>undefined\<close> for the arguments),
  and the exit code is the child's, here 0.
\<close>

theorem rejected_install_still_spawns:
  "decision (drop 2 (argv (example_host [''install'']))) = Reject \<and>
   pnpmArgs (constructor (example_host [''install''])) = None \<and>
   calls (run (example_host [''install''])) =
     [SpawnSync ''/repo/common/temp/pnpm-local/node_modules/.bin/pnpm'' None
        [''NPM_CONFIG_WORKSPACE_DIR'' \<mapsto> ''/repo/common/temp'']] \<and>
   exitCode (run (example_host [''install''])) = 0"
  by (simp add: run_eval classify_eval Let_def)

end
